theory Spec2Isabelle
  imports Main
begin

section \<open>Metaspace chunk allocation sequences and the SpaceManager constructor\<close>

text \<open>
  A shallow embedding of \<^verbatim>\<open>memory/metaspace/chunkAllocSequence.cpp\<close> and of
  the constructor in \<^verbatim>\<open>memory/metaspace/spaceManager.cpp\<close>.
  Field names drop the leading underscore of the C++ members.
\<close>

subsection \<open>Chunk levels and space types\<close>

text \<open>
  Modelled from the spec: \<^verbatim>\<open>chunkLevel.hpp\<close>, which declares \<open>chklvl_t\<close> and
  the \<open>chklvl::CHUNK_LEVEL_*\<close> constants, is not among the sources. The levels are
  the named constants the sequence tables use; each names a different block size of the
  ladder, so they are pairwise distinct.
\<close>

datatype chklvl_t =
    CHUNK_LEVEL_1K
  | CHUNK_LEVEL_2K
  | CHUNK_LEVEL_4K
  | CHUNK_LEVEL_16K
  | CHUNK_LEVEL_256K
  | CHUNK_LEVEL_1M
  | CHUNK_LEVEL_4M

text \<open>
  Modelled from the spec: \<^verbatim>\<open>metaspaceEnums.hpp\<close>, which declares the enum
  \<open>MetaspaceType\<close>, is not among the sources. The first four constructors are the
  enumerators the selector switches on (the closed set of arena categories);
  \<open>UnrecognizedMetaspaceType k\<close> stands for any other value an object of the enum
  type may hold, the input of the \<^verbatim>\<open>default:\<close> branches.
\<close>

datatype MetaspaceType =
    StandardMetaspaceType
  | ReflectionMetaspaceType
  | UnsafeAnonymousMetaspaceType
  | BootMetaspaceType
  | UnrecognizedMetaspaceType nat

subsection \<open>Errors\<close>

text \<open>
  \<open>AssertFailed\<close> is a failed \<^verbatim>\<open>assert\<close>, \<open>ShouldNotReachHere\<close> the fatal error
  of the macro of that name, \<open>OutOfBounds k\<close> a read of an array at an index \<open>k\<close>
  outside its extent, \<open>InvalidPointer\<close> a call through a pointer that addresses no
  object, \<open>OutOfMemory\<close> the failure of an allocation for want of backing space.

  Modelled from the spec: \<^verbatim>\<open>utilities/debug.hpp\<close>, which defines the macros
  \<^verbatim>\<open>assert\<close> and \<^verbatim>\<open>ShouldNotReachHere\<close>, is not among the sources; both are
  fatal (the spec's ProgrammingContractViolation), so the statement after them is not
  reached.
\<close>

datatype vm_error =
    AssertFailed string
  | ShouldNotReachHere
  | OutOfBounds int
  | InvalidPointer
  | OutOfMemory

subsection \<open>ConstantChunkAllocSequence\<close>

text \<open>
  \<^verbatim>\<open>const chklvl_t* const _entries; const int _num_entries;\<close>
  The pointer to the constant array is modelled by the array it points to, with the
  array's real extent; \<open>num_entries\<close> is the count the object was given.
\<close>

record ConstantChunkAllocSequence =
  entries :: "chklvl_t list"
  num_entries :: int

text \<open>
  The constructor:
  \<^verbatim>\<open>
  ConstantChunkAllocSequence(const chklvl_t* array, int num_entries)
    : _entries(array), _num_entries(num_entries)
  { assert(_num_entries > 0, "must not be empty."); }
  \<close>
\<close>

definition ConstantChunkAllocSequence_ctor ::
    "chklvl_t list \<Rightarrow> int \<Rightarrow> vm_error + ConstantChunkAllocSequence" where
  "ConstantChunkAllocSequence_ctor array n =
     (if n > 0 then Inr \<lparr>entries = array, num_entries = n\<rparr>
      else Inl (AssertFailed ''must not be empty.''))"

text \<open>\<^verbatim>\<open>_entries[k]\<close>: a read inside the array's extent, or an error.\<close>

definition array_read :: "chklvl_t list \<Rightarrow> int \<Rightarrow> vm_error + chklvl_t" where
  "array_read xs k =
     (if 0 \<le> k \<and> k < int (length xs) then Inr (xs ! nat k) else Inl (OutOfBounds k))"

text \<open>
  Objects live in a heap, addressed by references of some type \<open>'r\<close>. A method call
  takes the heap and returns its result together with the heap after the call.
\<close>

type_synonym 'r heap = "'r \<Rightarrow> ConstantChunkAllocSequence option"

text \<open>
  \<^verbatim>\<open>
  chklvl_t get_next_chunk_level(int num_allocated) const {
    if (num_allocated >= _num_entries) {
      // Caller shall repeat last allocation
      return _entries[_num_entries - 1];
    }
    return _entries[num_allocated];
  }
  \<close>
  The C++ \<^verbatim>\<open>int\<close> is modelled by \<open>int\<close>: the method compares, and subtracts one
  from \<open>_num_entries\<close>, which the constructor asserts to be positive.
\<close>

definition get_next_chunk_level ::
    "'r heap \<Rightarrow> 'r \<Rightarrow> int \<Rightarrow> (vm_error + chklvl_t) \<times> 'r heap" where
  "get_next_chunk_level h this num_allocated =
     (case h this of
        None \<Rightarrow> (Inl InvalidPointer, h)
      | Some obj \<Rightarrow>
          (if num_allocated \<ge> num_entries obj
           then array_read (entries obj) (num_entries obj - 1)
           else array_read (entries obj) num_allocated,
           h))"

text \<open>The subscript the call evaluates, for the statements about array bounds.\<close>

definition accessed_index :: "ConstantChunkAllocSequence \<Rightarrow> int \<Rightarrow> int" where
  "accessed_index obj num_allocated =
     (if num_allocated \<ge> num_entries obj then num_entries obj - 1 else num_allocated)"

subsection \<open>The hard-coded sequences\<close>

definition g_sequ_standard_non_class :: "chklvl_t list" where
  "g_sequ_standard_non_class =
     [CHUNK_LEVEL_4K, CHUNK_LEVEL_4K, CHUNK_LEVEL_4K, CHUNK_LEVEL_4K, CHUNK_LEVEL_16K]"

definition g_sequ_standard_class :: "chklvl_t list" where
  "g_sequ_standard_class =
     [CHUNK_LEVEL_2K, CHUNK_LEVEL_2K, CHUNK_LEVEL_2K, CHUNK_LEVEL_2K, CHUNK_LEVEL_16K]"

definition g_sequ_anon_non_class :: "chklvl_t list" where
  "g_sequ_anon_non_class = [CHUNK_LEVEL_1K]"

definition g_sequ_anon_class :: "chklvl_t list" where
  "g_sequ_anon_class = [CHUNK_LEVEL_1K]"

definition g_sequ_refl_non_class :: "chklvl_t list" where
  "g_sequ_refl_non_class = [CHUNK_LEVEL_2K, CHUNK_LEVEL_1K]"

definition g_sequ_refl_class :: "chklvl_t list" where
  "g_sequ_refl_class = [CHUNK_LEVEL_1K]"

definition g_sequ_boot_non_class :: "chklvl_t list" where
  "g_sequ_boot_non_class = [CHUNK_LEVEL_4M, CHUNK_LEVEL_1M]"

definition g_sequ_boot_class :: "chklvl_t list" where
  "g_sequ_boot_class = [CHUNK_LEVEL_1M, CHUNK_LEVEL_256K]"

text \<open>
  \<^verbatim>\<open>
  #define DEFINE_CLASS_FOR_ARRAY(what) \
    static ConstantChunkAllocSequence g_chunk_alloc_sequence_##what
      (g_sequ_##what, sizeof(g_sequ_##what)/sizeof(chklvl_t));
  \<close>
  The quotient of the two sizes is the number of elements of the array.
\<close>

definition DEFINE_CLASS_FOR_ARRAY ::
    "chklvl_t list \<Rightarrow> vm_error + ConstantChunkAllocSequence" where
  "DEFINE_CLASS_FOR_ARRAY what = ConstantChunkAllocSequence_ctor what (int (length what))"

text \<open>The eight static objects, named by their addresses.\<close>

datatype seq_ref =
    g_chunk_alloc_sequence_standard_non_class
  | g_chunk_alloc_sequence_standard_class
  | g_chunk_alloc_sequence_anon_non_class
  | g_chunk_alloc_sequence_anon_class
  | g_chunk_alloc_sequence_refl_non_class
  | g_chunk_alloc_sequence_refl_class
  | g_chunk_alloc_sequence_boot_non_class
  | g_chunk_alloc_sequence_boot_class

fun static_object :: "seq_ref \<Rightarrow> vm_error + ConstantChunkAllocSequence" where
  "static_object g_chunk_alloc_sequence_standard_non_class =
     DEFINE_CLASS_FOR_ARRAY g_sequ_standard_non_class"
| "static_object g_chunk_alloc_sequence_standard_class =
     DEFINE_CLASS_FOR_ARRAY g_sequ_standard_class"
| "static_object g_chunk_alloc_sequence_anon_non_class =
     DEFINE_CLASS_FOR_ARRAY g_sequ_anon_non_class"
| "static_object g_chunk_alloc_sequence_anon_class =
     DEFINE_CLASS_FOR_ARRAY g_sequ_anon_class"
| "static_object g_chunk_alloc_sequence_refl_non_class =
     DEFINE_CLASS_FOR_ARRAY g_sequ_refl_non_class"
| "static_object g_chunk_alloc_sequence_refl_class =
     DEFINE_CLASS_FOR_ARRAY g_sequ_refl_class"
| "static_object g_chunk_alloc_sequence_boot_non_class =
     DEFINE_CLASS_FOR_ARRAY g_sequ_boot_non_class"
| "static_object g_chunk_alloc_sequence_boot_class =
     DEFINE_CLASS_FOR_ARRAY g_sequ_boot_class"

text \<open>The heap after static initialisation: an object wherever its constructor returned.\<close>

definition static_heap :: "seq_ref heap" where
  "static_heap p = (case static_object p of Inl e \<Rightarrow> None | Inr obj \<Rightarrow> Some obj)"

text \<open>
  \<^verbatim>\<open>
  const ChunkAllocSequence* ChunkAllocSequence::alloc_sequence_by_space_type(
      MetaspaceType space_type, bool is_class) {
    if (is_class) {
      switch(space_type) {
      case StandardMetaspaceType:          return &g_chunk_alloc_sequence_standard_class;
      case ReflectionMetaspaceType:        return &g_chunk_alloc_sequence_refl_class;
      case UnsafeAnonymousMetaspaceType:   return &g_chunk_alloc_sequence_anon_class;
      case BootMetaspaceType:              return &g_chunk_alloc_sequence_boot_non_class;
      default: ShouldNotReachHere();
      }
    } else {
      switch(space_type) {
      case StandardMetaspaceType:          return &g_chunk_alloc_sequence_standard_non_class;
      case ReflectionMetaspaceType:        return &g_chunk_alloc_sequence_refl_non_class;
      case UnsafeAnonymousMetaspaceType:   return &g_chunk_alloc_sequence_anon_non_class;
      case BootMetaspaceType:              return &g_chunk_alloc_sequence_boot_non_class;
      default: ShouldNotReachHere();
      }
    }
    return NULL;
  }
  \<close>
\<close>

fun alloc_sequence_by_space_type :: "MetaspaceType \<Rightarrow> bool \<Rightarrow> vm_error + seq_ref" where
  "alloc_sequence_by_space_type space_type is_class =
     (if is_class then
        (case space_type of
           StandardMetaspaceType \<Rightarrow> Inr g_chunk_alloc_sequence_standard_class
         | ReflectionMetaspaceType \<Rightarrow> Inr g_chunk_alloc_sequence_refl_class
         | UnsafeAnonymousMetaspaceType \<Rightarrow> Inr g_chunk_alloc_sequence_anon_class
         | BootMetaspaceType \<Rightarrow> Inr g_chunk_alloc_sequence_boot_non_class
         | _ \<Rightarrow> Inl ShouldNotReachHere)
      else
        (case space_type of
           StandardMetaspaceType \<Rightarrow> Inr g_chunk_alloc_sequence_standard_non_class
         | ReflectionMetaspaceType \<Rightarrow> Inr g_chunk_alloc_sequence_refl_non_class
         | UnsafeAnonymousMetaspaceType \<Rightarrow> Inr g_chunk_alloc_sequence_anon_non_class
         | BootMetaspaceType \<Rightarrow> Inr g_chunk_alloc_sequence_boot_non_class
         | _ \<Rightarrow> Inl ShouldNotReachHere))"

text \<open>
  A caller's \<^verbatim>\<open>alloc_sequence_by_space_type(t, c)->get_next_chunk_level(n)\<close>
  on the heap of the static objects.
\<close>

definition next_level_by_space_type ::
    "MetaspaceType \<Rightarrow> bool \<Rightarrow> int \<Rightarrow> vm_error + chklvl_t" where
  "next_level_by_space_type space_type is_class num_allocated =
     (case alloc_sequence_by_space_type space_type is_class of
        Inl e \<Rightarrow> Inl e
      | Inr p \<Rightarrow> fst (get_next_chunk_level static_heap p num_allocated))"

subsection \<open>SpaceManager\<close>

text \<open>
  Modelled from the spec: \<^verbatim>\<open>spaceManager.hpp\<close>, \<^verbatim>\<open>metachunk.hpp\<close> and the
  declaration of the block free-list are not among the sources. A chunk (the spec's
  block) is a span of words at a base address, of some level, carved from the bottom by
  a bump pointer; the free-list is an address-ordered list of freed spans
  \<open>(address, word count)\<close>. A pointer member is modelled by the object it points to,
  \<open>None\<close> being \<^verbatim>\<open>NULL\<close>. The lock, the chunk manager and the allocation
  sequence are references of types the constructor does not look into.
\<close>

type_synonym address = nat

record Metachunk =
  chunk_base :: address
  chunk_level :: chklvl_t
  chunk_words :: nat
  chunk_top :: nat

type_synonym BlockFreelist = "(address \<times> nat) list"

record ('l, 'c, 's) SpaceManager =
  lock :: 'l
  chunk_manager :: 'c
  chunk_alloc_sequence :: 's
  first_chunk :: "Metachunk option"
  current_chunk :: "Metachunk option"
  block_freelist :: "BlockFreelist option"
  overhead_words :: nat
  capacity_words :: nat
  used_words :: nat
  num_chunks_by_type :: "chklvl_t \<Rightarrow> nat"

text \<open>
  \<^verbatim>\<open>
  SpaceManager::SpaceManager(ChunkManager* chunk_manager,
                             const ChunkAllocSequence* alloc_sequence, Mutex* lock)
    : _lock(lock)
    , _chunk_manager(chunk_manager)
    , _chunk_alloc_sequence(alloc_sequence)
    , _first_chunk(NULL)
    , _current_chunk(NULL)
    , _block_freelist(NULL)
    , _overhead_words(0)
    , _capacity_words(0)
    , _used_words(0)
    , _num_chunks_by_type {}
  {
  }
  \<close>
  The constructor takes the state \<open>w\<close> of everything outside the new object (the chunk
  manager with its chunks among it) and returns it with the object: the body is empty,
  so nothing is called.
\<close>

definition SpaceManager_ctor ::
    "'w \<Rightarrow> 'c \<Rightarrow> 's \<Rightarrow> 'l \<Rightarrow> ('l, 'c, 's) SpaceManager \<times> 'w" where
  "SpaceManager_ctor w chunk_manager' alloc_sequence lock' =
     (\<lparr>lock = lock',
       chunk_manager = chunk_manager',
       chunk_alloc_sequence = alloc_sequence,
       first_chunk = None,
       current_chunk = None,
       block_freelist = None,
       overhead_words = 0,
       capacity_words = 0,
       used_words = 0,
       num_chunks_by_type = (\<lambda>_. 0)\<rparr>,
      w)"

subsection \<open>Allocation and deallocation in an arena\<close>

text \<open>
  Modelled from the spec: the bodies of \<open>allocate\<close> and \<open>deallocate\<close> are not among
  the sources (\<^verbatim>\<open>spaceManager.cpp\<close> holds the constructor only). What follows is
  section 4.2 of the specification, step by step, over the fields the constructor
  initialises. The constants the specification leaves to the platform are parameters:
  the allocation granularity in words, the minimum useful size of a leftover tail, the
  fixed per-block overhead in words, and the number of bytes in a word.
\<close>

record arena_params =
  granule :: nat
  min_useful :: nat
  block_overhead :: nat
  bytes_per_word :: nat

text \<open>
  Modelled from the spec: the size of a level (\<^verbatim>\<open>chunkLevel.hpp\<close> is missing), as
  its name gives it, and its capacity in words.
\<close>

fun level_bytes :: "chklvl_t \<Rightarrow> nat" where
  "level_bytes CHUNK_LEVEL_1K = 1024"
| "level_bytes CHUNK_LEVEL_2K = 2 * 1024"
| "level_bytes CHUNK_LEVEL_4K = 4 * 1024"
| "level_bytes CHUNK_LEVEL_16K = 16 * 1024"
| "level_bytes CHUNK_LEVEL_256K = 256 * 1024"
| "level_bytes CHUNK_LEVEL_1M = 1024 * 1024"
| "level_bytes CHUNK_LEVEL_4M = 4 * 1024 * 1024"

definition level_words :: "arena_params \<Rightarrow> chklvl_t \<Rightarrow> nat" where
  "level_words P l = level_bytes l div bytes_per_word P"

text \<open>
  Modelled from the spec: the size-class ladder (\<^verbatim>\<open>chunkLevel.hpp\<close> is missing), the
  levels from smallest to largest.
\<close>

definition ladder :: "chklvl_t list" where
  "ladder = [CHUNK_LEVEL_1K, CHUNK_LEVEL_2K, CHUNK_LEVEL_4K, CHUNK_LEVEL_16K,
             CHUNK_LEVEL_256K, CHUNK_LEVEL_1M, CHUNK_LEVEL_4M]"

text \<open>
  Modelled from the spec: step 2 of \<open>allocate\<close> (body missing), "round \<open>word_count\<close> up
  to the platform's minimum allocation granularity".
\<close>

definition align_up :: "nat \<Rightarrow> nat \<Rightarrow> nat" where
  "align_up n g = ((n + g - 1) div g) * g"

text \<open>
  Modelled from the spec: step 3 of \<open>allocate\<close> (body missing), "if a freed record of
  sufficient size exists, remove it (splitting off and re-inserting any leftover tail
  above a minimum useful size)". The first span that is large enough is taken.
\<close>

fun take_span :: "nat \<Rightarrow> nat \<Rightarrow> BlockFreelist \<Rightarrow> (address \<times> BlockFreelist) option" where
  "take_span mu n [] = None"
| "take_span mu n ((a, m) # rest) =
     (if n \<le> m
      then Some (a, if 0 < m - n \<and> mu \<le> m - n then (a + n, m - n) # rest else rest)
      else (case take_span mu n rest of
              None \<Rightarrow> None
            | Some (r, rest') \<Rightarrow> Some (r, (a, m) # rest')))"

text \<open>
  Modelled from the spec: the free-list insertion of \<open>deallocate\<close> (body missing),
  "inserts the freed span into the free-list, coalescing with an adjacent free span when
  addresses are contiguous". The list is kept in address order.
\<close>

fun insert_span :: "address \<times> nat \<Rightarrow> BlockFreelist \<Rightarrow> BlockFreelist" where
  "insert_span (a, n) [] = [(a, n)]"
| "insert_span (a, n) ((b, m) # rest) =
     (if a + n = b then (a, n + m) # rest
      else if b + m = a then insert_span (b, m + n) rest
      else if a < b then (a, n) # (b, m) # rest
      else (b, m) # insert_span (a, n) rest)"

text \<open>
  Modelled from the spec: step 4 of \<open>allocate\<close> (body missing), "if \<open>current_block\<close> has
  enough remaining space, carve \<open>word_count\<close> words from its bump pointer, update
  counters, return the address". The first chunk, when it is the current one, is the
  same object and changes with it.
\<close>

definition carve ::
    "('l, 'c, 's) SpaceManager \<Rightarrow> nat \<Rightarrow> (address \<times> ('l, 'c, 's) SpaceManager) option" where
  "carve s n =
     (case current_chunk s of
        None \<Rightarrow> None
      | Some c \<Rightarrow>
          if n \<le> chunk_words c - chunk_top c
          then Some (chunk_base c + chunk_top c,
                     s\<lparr>current_chunk := Some (c\<lparr>chunk_top := chunk_top c + n\<rparr>),
                       first_chunk :=
                         (if first_chunk s = Some c
                          then Some (c\<lparr>chunk_top := chunk_top c + n\<rparr>)
                          else first_chunk s),
                       used_words := used_words s + n\<rparr>)
          else None)"

text \<open>
  Modelled from the spec: step 5 of \<open>allocate\<close> (body missing). The call index fed to
  the sequence is the count of blocks already granted, over all levels; a suggested
  level that cannot hold the request is replaced by the smallest level of the ladder that
  can, and the request fails when none can.
\<close>

definition blocks_granted :: "('l, 'c, 's) SpaceManager \<Rightarrow> nat" where
  "blocks_granted s = sum_list (map (num_chunks_by_type s) ladder)"

definition choose_level ::
    "arena_params \<Rightarrow> ('l, 'c, seq_ref) SpaceManager \<Rightarrow> nat \<Rightarrow> vm_error + chklvl_t" where
  "choose_level P s n =
     (case fst (get_next_chunk_level static_heap (chunk_alloc_sequence s)
                  (int (blocks_granted s))) of
        Inl e \<Rightarrow> Inl e
      | Inr suggested \<Rightarrow>
          if n \<le> level_words P suggested then Inr suggested
          else (case find (\<lambda>l. n \<le> level_words P l) ladder of
                  None \<Rightarrow> Inl OutOfMemory
                | Some l \<Rightarrow> Inr l))"

text \<open>
  Modelled from the spec: step 6 of \<open>allocate\<close> (body missing), "link the new block as
  \<open>current_block\<close> (and as \<open>first_block\<close> if none existed), increment
  \<open>num_blocks_by_level\<close>, add the block's full word capacity to \<open>capacity_words\<close> minus
  its fixed per-block overhead (added to \<open>overhead_words\<close>)". The words that can be
  carved from the block are its capacity minus that overhead.
\<close>

definition install_block ::
    "arena_params \<Rightarrow> ('l, 'c, 's) SpaceManager \<Rightarrow> chklvl_t \<Rightarrow> address
       \<Rightarrow> ('l, 'c, 's) SpaceManager" where
  "install_block P s lvl base =
     (let c = \<lparr>chunk_base = base, chunk_level = lvl,
               chunk_words = level_words P lvl - block_overhead P, chunk_top = 0\<rparr>
      in s\<lparr>current_chunk := Some c,
           first_chunk := (case first_chunk s of None \<Rightarrow> Some c | Some f \<Rightarrow> Some f),
           num_chunks_by_type := (num_chunks_by_type s)(lvl := num_chunks_by_type s lvl + 1),
           capacity_words := capacity_words s + (level_words P lvl - block_overhead P),
           overhead_words := overhead_words s + block_overhead P\<rparr>)"

text \<open>
  Modelled from the spec: steps 5 and 6 of \<open>allocate\<close> (body missing) with the return
  to step 4. The Block Pool is external: \<open>pool\<close> lists its answers to the successive
  \<open>acquire_block(level)\<close> calls of one operation, each the base address of the block
  granted or \<open>None\<close> when it has none; a pool that answers no more is exhausted.
\<close>

fun grow ::
    "arena_params \<Rightarrow> (chklvl_t \<Rightarrow> address option) list \<Rightarrow> ('l, 'c, seq_ref) SpaceManager \<Rightarrow> nat
       \<Rightarrow> (vm_error + address) \<times> ('l, 'c, seq_ref) SpaceManager" where
  "grow P [] s n = (Inl OutOfMemory, s)"
| "grow P (acquire_block # later) s n =
     (case choose_level P s n of
        Inl e \<Rightarrow> (Inl e, s)
      | Inr lvl \<Rightarrow>
          (case acquire_block lvl of
             None \<Rightarrow> (Inl OutOfMemory, s)
           | Some base \<Rightarrow>
               (let s1 = install_block P s lvl base
                in case carve s1 n of
                     Some (a, s2) \<Rightarrow> (Inr a, s2)
                   | None \<Rightarrow> grow P later s1 n)))"

text \<open>
  Modelled from the spec: \<open>allocate(word_count)\<close> (body missing), steps 2 to 6; the lock
  of step 1 has no counterpart in a sequential model.
\<close>

definition allocate ::
    "arena_params \<Rightarrow> (chklvl_t \<Rightarrow> address option) list \<Rightarrow> ('l, 'c, seq_ref) SpaceManager \<Rightarrow> nat
       \<Rightarrow> (vm_error + address) \<times> ('l, 'c, seq_ref) SpaceManager" where
  "allocate P pool s word_count =
     (let n = align_up word_count (granule P)
      in case (case block_freelist s of
                 None \<Rightarrow> None
               | Some fl \<Rightarrow> take_span (min_useful P) n fl) of
           Some (a, fl') \<Rightarrow>
             (Inr a, s\<lparr>block_freelist := Some fl', used_words := used_words s + n\<rparr>)
         | None \<Rightarrow>
             (case carve s n of
                Some (a, s') \<Rightarrow> (Inr a, s')
              | None \<Rightarrow> grow P pool s n))"

text \<open>
  Modelled from the spec: \<open>deallocate(address, word_count)\<close> (body missing), "inserts
  the freed span into the free-list [...]; decrements \<open>used_words\<close>; never returns memory
  to the Block Pool directly".
\<close>

definition deallocate ::
    "('l, 'c, 's) SpaceManager \<Rightarrow> address \<Rightarrow> nat \<Rightarrow> ('l, 'c, 's) SpaceManager" where
  "deallocate s a word_count =
     s\<lparr>block_freelist :=
         Some (insert_span (a, word_count)
                 (case block_freelist s of None \<Rightarrow> [] | Some fl \<Rightarrow> fl)),
       used_words := used_words s - word_count\<rparr>"

text \<open>
  Modelled from the spec: the observable points of an arena's lifetime (the operations'
  bodies are missing): after construction and after each \<open>allocate\<close> or \<open>deallocate\<close>.
  The second component lists the live allocations, address and requested word count;
  \<open>deallocate\<close> is called on a live allocation only ("deallocation of an address not
  previously returned by \<open>allocate\<close> on this same arena is undefined-contract misuse").
\<close>

inductive arena_reachable ::
    "arena_params \<Rightarrow> ('l, 'c, seq_ref) SpaceManager \<times> (address \<times> nat) list \<Rightarrow> bool"
    for P :: arena_params where
  constructed:
    "arena_reachable P (fst (SpaceManager_ctor () cm sq lk), [])"
| allocated:
    "arena_reachable P (s, live) \<Longrightarrow> allocate P pool s n = (Inr a, s')
       \<Longrightarrow> arena_reachable P (s', (a, n) # live)"
| refused:
    "arena_reachable P (s, live) \<Longrightarrow> allocate P pool s n = (Inl e, s')
       \<Longrightarrow> arena_reachable P (s', live)"
| deallocated:
    "arena_reachable P (s, live) \<Longrightarrow> (a, n) \<in> set live
       \<Longrightarrow> arena_reachable P (deallocate s a n, remove1 (a, n) live)"

code_pred arena_reachable .

text \<open>
  The words on the free-list, and the words left in the current chunk: with the words
  in use, they are accounted for within the capacity.
\<close>

definition free_words :: "('l, 'c, 's) SpaceManager \<Rightarrow> nat" where
  "free_words s = (case block_freelist s of None \<Rightarrow> 0 | Some fl \<Rightarrow> sum_list (map snd fl))"

definition remaining_words :: "('l, 'c, 's) SpaceManager \<Rightarrow> nat" where
  "remaining_words s =
     (case current_chunk s of None \<Rightarrow> 0 | Some c \<Rightarrow> chunk_words c - chunk_top c)"

definition accounted :: "('l, 'c, 's) SpaceManager \<Rightarrow> bool" where
  "accounted s \<longleftrightarrow> used_words s + free_words s + remaining_words s \<le> capacity_words s"

section \<open>Properties\<close>

subsection \<open>Helper lemmas\<close>

lemma ctor_Inr_iff:
  "ConstantChunkAllocSequence_ctor array n = Inr obj
     \<longleftrightarrow> 0 < n \<and> obj = \<lparr>entries = array, num_entries = n\<rparr>"
  by (auto simp: ConstantChunkAllocSequence_ctor_def)

lemma get_next_chunk_level_index:
  "h this = Some obj \<Longrightarrow>
   fst (get_next_chunk_level h this i) = array_read (entries obj) (accessed_index obj i)"
  by (simp add: get_next_chunk_level_def accessed_index_def)

lemma static_heap_simps:
  "static_heap g_chunk_alloc_sequence_standard_non_class =
     Some \<lparr>entries = g_sequ_standard_non_class, num_entries = 5\<rparr>"
  "static_heap g_chunk_alloc_sequence_standard_class =
     Some \<lparr>entries = g_sequ_standard_class, num_entries = 5\<rparr>"
  "static_heap g_chunk_alloc_sequence_anon_non_class =
     Some \<lparr>entries = g_sequ_anon_non_class, num_entries = 1\<rparr>"
  "static_heap g_chunk_alloc_sequence_anon_class =
     Some \<lparr>entries = g_sequ_anon_class, num_entries = 1\<rparr>"
  "static_heap g_chunk_alloc_sequence_refl_non_class =
     Some \<lparr>entries = g_sequ_refl_non_class, num_entries = 2\<rparr>"
  "static_heap g_chunk_alloc_sequence_refl_class =
     Some \<lparr>entries = g_sequ_refl_class, num_entries = 1\<rparr>"
  "static_heap g_chunk_alloc_sequence_boot_non_class =
     Some \<lparr>entries = g_sequ_boot_non_class, num_entries = 2\<rparr>"
  "static_heap g_chunk_alloc_sequence_boot_class =
     Some \<lparr>entries = g_sequ_boot_class, num_entries = 2\<rparr>"
  by (simp_all add: static_heap_def DEFINE_CLASS_FOR_ARRAY_def
      ConstantChunkAllocSequence_ctor_def g_sequ_standard_non_class_def
      g_sequ_standard_class_def g_sequ_anon_non_class_def g_sequ_anon_class_def
      g_sequ_refl_non_class_def g_sequ_refl_class_def g_sequ_boot_non_class_def
      g_sequ_boot_class_def)

subsection \<open>Accounting of words in an arena\<close>

lemma align_up_ge: "0 < g \<Longrightarrow> n \<le> align_up n g"
proof -
  assume g: "0 < g"
  have "n + g - 1 < ((n + g - 1) div g) * g + g"
    using g by (metis div_mult_mod_eq add_less_cancel_left mod_less_divisor mult.commute)
  then show ?thesis using g by (simp add: align_up_def)
qed

lemma take_span_words:
  "take_span mu n fl = Some (a, fl') \<Longrightarrow> n + sum_list (map snd fl') \<le> sum_list (map snd fl)"
  by (induction mu n fl arbitrary: a fl' rule: take_span.induct)
     (auto split: if_splits option.splits)

lemma insert_span_words:
  "sum_list (map snd (insert_span sp fl)) = snd sp + sum_list (map snd fl)"
  by (induction sp fl rule: insert_span.induct) auto

lemma carve_accounted:
  "carve s n = Some (a, s') \<Longrightarrow> accounted s \<Longrightarrow>
     accounted s' \<and> used_words s' = used_words s + n"
  by (auto simp: carve_def accounted_def free_words_def remaining_words_def
           split: option.splits if_splits)

lemma install_block_accounted:
  "accounted s \<Longrightarrow>
     accounted (install_block P s lvl base)
     \<and> used_words (install_block P s lvl base) = used_words s"
  by (auto simp: install_block_def accounted_def free_words_def remaining_words_def Let_def
           split: option.splits)

lemma grow_accounted:
  "grow P pool s n = (r, s') \<Longrightarrow> accounted s \<Longrightarrow>
     accounted s' \<and> used_words s' = used_words s + (case r of Inl e \<Rightarrow> 0 | Inr a \<Rightarrow> n)"
proof (induction pool arbitrary: s)
  case Nil
  then show ?case by auto
next
  case (Cons acquire_block later)
  show ?case
  proof (cases "choose_level P s n")
    case (Inl e)
    with Cons.prems show ?thesis by auto
  next
    case (Inr lvl)
    show ?thesis
    proof (cases "acquire_block lvl")
      case None
      with Inr Cons.prems show ?thesis by auto
    next
      case acquired: (Some base)
      let ?s1 = "install_block P s lvl base"
      have s1: "accounted ?s1" "used_words ?s1 = used_words s"
        using install_block_accounted [OF Cons.prems(2)] by auto
      show ?thesis
      proof (cases "carve ?s1 n")
        case None
        with Inr acquired Cons.prems(1) have "grow P later ?s1 n = (r, s')"
          by (simp add: Let_def)
        from Cons.IH [OF this s1(1)] s1(2) show ?thesis by simp
      next
        case (Some p)
        obtain a s2 where p: "p = (a, s2)" by (cases p)
        with Inr acquired Some Cons.prems(1) have "r = Inr a" "s' = s2"
          by (simp_all add: Let_def)
        with carve_accounted [OF Some [unfolded p] s1(1)] s1(2) show ?thesis by simp
      qed
    qed
  qed
qed

lemma allocate_accounted:
  assumes "allocate P pool s wc = (r, s')" and "accounted s"
  shows "accounted s' \<and> used_words s' = used_words s
           + (case r of Inl e \<Rightarrow> 0 | Inr a \<Rightarrow> align_up wc (granule P))"
proof -
  let ?n = "align_up wc (granule P)"
  let ?hit = "case block_freelist s of None \<Rightarrow> None
              | Some fl \<Rightarrow> take_span (min_useful P) ?n fl"
  show ?thesis
  proof (cases ?hit)
    case (Some p)
    obtain a fl' where p: "p = (a, fl')" by (cases p)
    from Some p obtain fl where fl: "block_freelist s = Some fl"
      and tk: "take_span (min_useful P) ?n fl = Some (a, fl')"
      by (auto split: option.splits)
    from assms(1) Some p have r: "r = Inr a"
      and s': "s' = s\<lparr>block_freelist := Some fl', used_words := used_words s + ?n\<rparr>"
      by (simp_all add: allocate_def Let_def)
    from take_span_words [OF tk] assms(2) fl show ?thesis
      by (simp add: r s' accounted_def free_words_def remaining_words_def)
  next
    case None
    show ?thesis
    proof (cases "carve s ?n")
      case (Some p)
      obtain a s2 where p: "p = (a, s2)" by (cases p)
      from assms(1) None Some p have "r = Inr a" "s' = s2"
        by (simp_all add: allocate_def Let_def)
      with carve_accounted [OF Some [unfolded p] assms(2)] show ?thesis by simp
    next
      case None2: None
      from assms(1) None None2 have "grow P pool s ?n = (r, s')"
        by (simp add: allocate_def Let_def)
      from grow_accounted [OF this assms(2)] show ?thesis .
    qed
  qed
qed

lemma deallocate_accounted:
  assumes "accounted s" and "n \<le> used_words s"
  shows "accounted (deallocate s a n) \<and> used_words (deallocate s a n) = used_words s - n"
  using assms
  by (auto simp: deallocate_def accounted_def free_words_def remaining_words_def
        insert_span_words split: option.splits)

lemma sum_list_remove1_snd:
  fixes xs :: "(address \<times> nat) list"
  shows "x \<in> set xs \<Longrightarrow> sum_list (map snd (remove1 x xs)) + snd x = sum_list (map snd xs)"
  by (induction xs) auto

lemma reachable_invariant:
  assumes "0 < granule P" and "arena_reachable P sl"
  shows "accounted (fst sl) \<and> sum_list (map snd (snd sl)) \<le> used_words (fst sl)"
  using assms(2)
proof (induction rule: arena_reachable.induct)
  case (constructed cm sq lk)
  show ?case
    by (simp add: SpaceManager_ctor_def accounted_def free_words_def remaining_words_def)
next
  case (allocated s live pool n a s')
  from allocate_accounted [OF allocated.hyps(2)] allocated.IH
  have "accounted s'" "used_words s' = used_words s + align_up n (granule P)" by auto
  with align_up_ge [OF assms(1), of n] allocated.IH show ?case by simp
next
  case (refused s live pool n e s')
  from allocate_accounted [OF refused.hyps(2)] refused.IH show ?case by auto
next
  case (deallocated s live a n)
  from sum_list_remove1_snd [OF deallocated.hyps(2)]
  have sm: "sum_list (map snd (remove1 (a, n) live)) + n = sum_list (map snd live)" by simp
  with deallocated.IH have le: "n \<le> used_words s" by simp
  from deallocate_accounted [OF _ le, of a] deallocated.IH sm show ?case by auto
qed

subsection \<open>The constant sequence\<close>

text \<open>
  C1. For every constant chunk allocation sequence built over a non-empty table \<open>T\<close>
  of levels, and for every non-negative call index \<open>i\<close>, \<open>get_next_chunk_level(i)\<close>
  returns \<open>T[min(i, len(T)-1)]\<close>; in particular, for every \<open>i \<ge> len(T)\<close> it
  returns the table's last entry.
\<close>

theorem get_next_chunk_level_min:
  assumes "T \<noteq> []"
    and "DEFINE_CLASS_FOR_ARRAY T = Inr obj"
    and "h this = Some obj"
    and "0 \<le> i"
  shows "fst (get_next_chunk_level h this i) = Inr (T ! min (nat i) (length T - 1))
       \<and> (int (length T) \<le> i \<longrightarrow> fst (get_next_chunk_level h this i) = Inr (last T))"
proof -
  from assms(2) have obj: "obj = \<lparr>entries = T, num_entries = int (length T)\<rparr>"
    by (simp add: DEFINE_CLASS_FOR_ARRAY_def ctor_Inr_iff)
  from assms(1) have len: "0 < length T" by simp
  have idx: "nat (int (length T) - 1) = length T - 1" by simp
  show ?thesis
  proof (cases "int (length T) \<le> i")
    case True
    then have "min (nat i) (length T - 1) = length T - 1" by simp
    moreover have "fst (get_next_chunk_level h this i) = Inr (T ! (length T - 1))"
      using True len assms(3) obj idx
      by (simp add: get_next_chunk_level_def array_read_def del: of_nat_diff)
    moreover have "last T = T ! (length T - 1)"
      using assms(1) by (rule last_conv_nth)
    ultimately show ?thesis by simp
  next
    case False
    then have "min (nat i) (length T - 1) = nat i" using assms(4) by simp
    moreover have "fst (get_next_chunk_level h this i) = Inr (T ! nat i)"
      using False assms(3,4) obj
      by (simp add: get_next_chunk_level_def array_read_def)
    ultimately show ?thesis using False by simp
  qed
qed

theorem get_next_chunk_level_min_witness:
  "g_sequ_boot_non_class \<noteq> []
   \<and> DEFINE_CLASS_FOR_ARRAY g_sequ_boot_non_class
       = Inr \<lparr>entries = g_sequ_boot_non_class, num_entries = 2\<rparr>
   \<and> static_heap g_chunk_alloc_sequence_boot_non_class
       = Some \<lparr>entries = g_sequ_boot_non_class, num_entries = 2\<rparr>
   \<and> (0::int) \<le> 5
   \<and> fst (get_next_chunk_level static_heap g_chunk_alloc_sequence_boot_non_class 5)
       = Inr CHUNK_LEVEL_1M"
proof -
  let ?obj = "\<lparr>entries = g_sequ_boot_non_class, num_entries = 2\<rparr>"
  have t: "g_sequ_boot_non_class \<noteq> []"
    by (simp add: g_sequ_boot_non_class_def)
  have c: "DEFINE_CLASS_FOR_ARRAY g_sequ_boot_non_class = Inr ?obj"
    by (simp add: DEFINE_CLASS_FOR_ARRAY_def ConstantChunkAllocSequence_ctor_def
        g_sequ_boot_non_class_def)
  have h: "static_heap g_chunk_alloc_sequence_boot_non_class = Some ?obj"
    by (simp add: static_heap_simps)
  have i: "(0::int) \<le> 5" by simp
  have "fst (get_next_chunk_level static_heap g_chunk_alloc_sequence_boot_non_class 5)
          = Inr (g_sequ_boot_non_class ! min (nat 5) (length g_sequ_boot_non_class - 1))"
    using get_next_chunk_level_min
            [where h = static_heap and this = g_chunk_alloc_sequence_boot_non_class,
             OF t c h i]
    by simp
  then have "fst (get_next_chunk_level static_heap g_chunk_alloc_sequence_boot_non_class 5)
          = Inr CHUNK_LEVEL_1M"
    by (simp add: g_sequ_boot_non_class_def)
  with t c h i show ?thesis by simp
qed

text \<open>
  C6. Under the constructor's precondition that a constant sequence's table is non-empty
  (\<open>num_entries > 0\<close>), every call \<open>get_next_chunk_level(i)\<close> with non-negative \<open>i\<close>
  reads an index strictly within the bounds of the entries array (either \<open>i\<close> itself
  when \<open>i < num_entries\<close>, or \<open>num_entries - 1\<close> otherwise); the out-of-bounds access
  is unreachable.
\<close>

theorem get_next_chunk_level_in_bounds:
  assumes "ConstantChunkAllocSequence_ctor T n = Inr obj"
    and "n \<le> int (length T)"
    and "h this = Some obj"
    and "0 \<le> i"
  shows "accessed_index obj i = (if i < num_entries obj then i else num_entries obj - 1)
       \<and> 0 \<le> accessed_index obj i
       \<and> accessed_index obj i < int (length (entries obj))
       \<and> fst (get_next_chunk_level h this i) = array_read (entries obj) (accessed_index obj i)
       \<and> fst (get_next_chunk_level h this i) \<noteq> Inl (OutOfBounds k)
       \<and> (\<exists>l. fst (get_next_chunk_level h this i) = Inr l)"
proof -
  from assms(1) have n: "0 < n"
    and obj: "obj = \<lparr>entries = T, num_entries = n\<rparr>"
    by (simp_all add: ctor_Inr_iff)
  have eq: "accessed_index obj i = (if i < num_entries obj then i else num_entries obj - 1)"
    by (simp add: accessed_index_def)
  have lo: "0 \<le> accessed_index obj i"
    using n obj assms(4) by (simp add: accessed_index_def)
  have hi: "accessed_index obj i < int (length (entries obj))"
    using n obj assms(2) by (simp add: accessed_index_def)
  have rd: "fst (get_next_chunk_level h this i)
              = array_read (entries obj) (accessed_index obj i)"
    using assms(3) by (rule get_next_chunk_level_index)
  have ok: "array_read (entries obj) (accessed_index obj i)
              = Inr (entries obj ! nat (accessed_index obj i))"
    using lo hi by (simp add: array_read_def)
  from eq lo hi rd ok show ?thesis by simp
qed

theorem get_next_chunk_level_in_bounds_witness:
  "ConstantChunkAllocSequence_ctor g_sequ_refl_non_class 2
     = Inr \<lparr>entries = g_sequ_refl_non_class, num_entries = 2\<rparr>
   \<and> (2::int) \<le> int (length g_sequ_refl_non_class)
   \<and> static_heap g_chunk_alloc_sequence_refl_non_class
     = Some \<lparr>entries = g_sequ_refl_non_class, num_entries = 2\<rparr>
   \<and> (0::int) \<le> 7
   \<and> accessed_index \<lparr>entries = g_sequ_refl_non_class, num_entries = 2\<rparr> 7 = 1
   \<and> accessed_index \<lparr>entries = g_sequ_refl_non_class, num_entries = 2\<rparr> 7
       < int (length g_sequ_refl_non_class)
   \<and> fst (get_next_chunk_level static_heap g_chunk_alloc_sequence_refl_non_class 7)
       = Inr CHUNK_LEVEL_1K"
proof -
  let ?obj = "\<lparr>entries = g_sequ_refl_non_class, num_entries = 2\<rparr>"
  have c: "ConstantChunkAllocSequence_ctor g_sequ_refl_non_class 2 = Inr ?obj"
    by (simp add: ConstantChunkAllocSequence_ctor_def)
  have n: "(2::int) \<le> int (length g_sequ_refl_non_class)"
    by (simp add: g_sequ_refl_non_class_def)
  have h: "static_heap g_chunk_alloc_sequence_refl_non_class = Some ?obj"
    by (simp add: static_heap_simps)
  have i: "(0::int) \<le> 7" by simp
  note r = get_next_chunk_level_in_bounds
             [where h = static_heap and this = g_chunk_alloc_sequence_refl_non_class,
              OF c n h i]
  from r have idx: "accessed_index ?obj 7 = 1" by simp
  from idx have bnd: "accessed_index ?obj 7 < int (length g_sequ_refl_non_class)"
    by (simp add: g_sequ_refl_non_class_def)
  from r idx
  have "fst (get_next_chunk_level static_heap g_chunk_alloc_sequence_refl_non_class 7)
          = array_read g_sequ_refl_non_class 1"
    by simp
  then have "fst (get_next_chunk_level static_heap g_chunk_alloc_sequence_refl_non_class 7)
          = Inr CHUNK_LEVEL_1K"
    by (simp add: array_read_def g_sequ_refl_non_class_def)
  with c n h i idx bnd show ?thesis by simp
qed

text \<open>
  C7. \<open>get_next_chunk_level\<close> is a pure function of the sequence's table and the call
  index: for any sequence, two calls with the same \<open>num_allocated\<close> return equal levels,
  and a call mutates no state (the sequence and everything else are unchanged).
\<close>

theorem get_next_chunk_level_pure:
  "snd (get_next_chunk_level h this i) = h
   \<and> (h this = Some obj \<and> h' this' = Some obj \<longrightarrow>
        fst (get_next_chunk_level h this i) = fst (get_next_chunk_level h' this' i))
   \<and> fst (get_next_chunk_level (snd (get_next_chunk_level h this i)) this i)
       = fst (get_next_chunk_level h this i)"
proof -
  have unchanged: "snd (get_next_chunk_level h this i) = h"
    by (simp add: get_next_chunk_level_def split: option.split)
  have same: "h this = Some obj \<and> h' this' = Some obj \<longrightarrow>
        fst (get_next_chunk_level h this i) = fst (get_next_chunk_level h' this' i)"
    by (simp add: get_next_chunk_level_def)
  from unchanged same show ?thesis by simp
qed

theorem get_next_chunk_level_pure_witness:
  "static_heap g_chunk_alloc_sequence_anon_non_class
     = Some \<lparr>entries = [CHUNK_LEVEL_1K], num_entries = 1\<rparr>
   \<and> (static_heap (g_chunk_alloc_sequence_boot_class := None)) g_chunk_alloc_sequence_refl_class
     = Some \<lparr>entries = [CHUNK_LEVEL_1K], num_entries = 1\<rparr>
   \<and> snd (get_next_chunk_level static_heap g_chunk_alloc_sequence_anon_non_class 3) = static_heap
   \<and> fst (get_next_chunk_level static_heap g_chunk_alloc_sequence_anon_non_class 3)
     = fst (get_next_chunk_level (static_heap (g_chunk_alloc_sequence_boot_class := None))
              g_chunk_alloc_sequence_refl_class 3)"
proof -
  let ?obj = "\<lparr>entries = [CHUNK_LEVEL_1K], num_entries = 1\<rparr>"
  have a: "static_heap g_chunk_alloc_sequence_anon_non_class = Some ?obj"
    by (simp add: static_heap_simps g_sequ_anon_non_class_def)
  have b: "(static_heap (g_chunk_alloc_sequence_boot_class := None))
             g_chunk_alloc_sequence_refl_class = Some ?obj"
    by (simp add: static_heap_simps g_sequ_refl_class_def)
  from get_next_chunk_level_pure
         [of static_heap g_chunk_alloc_sequence_anon_non_class 3 ?obj
             "static_heap (g_chunk_alloc_sequence_boot_class := None)"
             g_chunk_alloc_sequence_refl_class]
       a b
  show ?thesis by simp
qed

subsection \<open>The selector\<close>

text \<open>
  C2. For the bootstrap category with the secondary (class) metadata kind, the sequence
  returned by the selector yields the large level (1M) at call index 0, the medium-large
  level (256K) at call index 1, and repeats the medium-large level for every index
  \<open>\<ge> 1\<close>. The selector does not do so: for \<open>BootMetaspaceType\<close> with
  \<open>is_class\<close> it returns the non-class object, whose levels are 4M, 1M, 1M, ...; the
  object built for the class kind, which no branch returns, has the levels of the claim.
\<close>

theorem boot_class_yields_non_class_levels:
  "alloc_sequence_by_space_type BootMetaspaceType True = Inr g_chunk_alloc_sequence_boot_non_class
   \<and> next_level_by_space_type BootMetaspaceType True 0 = Inr CHUNK_LEVEL_4M
   \<and> next_level_by_space_type BootMetaspaceType True 1 = Inr CHUNK_LEVEL_1M
   \<and> next_level_by_space_type BootMetaspaceType True 2 = Inr CHUNK_LEVEL_1M
   \<and> fst (get_next_chunk_level static_heap g_chunk_alloc_sequence_boot_class 0) = Inr CHUNK_LEVEL_1M
   \<and> fst (get_next_chunk_level static_heap g_chunk_alloc_sequence_boot_class 1) = Inr CHUNK_LEVEL_256K
   \<and> fst (get_next_chunk_level static_heap g_chunk_alloc_sequence_boot_class 2) = Inr CHUNK_LEVEL_256K"
  by (simp add: next_level_by_space_type_def get_next_chunk_level_def static_heap_simps
      array_read_def g_sequ_boot_non_class_def g_sequ_boot_class_def)

text \<open>
  C3. The selector \<open>alloc_sequence_by_space_type\<close> returns the identical sequence object
  for \<open>(BootMetaspaceType, is_class = true)\<close> and \<open>(BootMetaspaceType, is_class = false)\<close>:
  the bootstrap secondary-kind lookup falls back to the non-secondary (non-class)
  sequence table.
\<close>

theorem boot_class_falls_back_to_non_class:
  "alloc_sequence_by_space_type BootMetaspaceType True
     = alloc_sequence_by_space_type BootMetaspaceType False
   \<and> alloc_sequence_by_space_type BootMetaspaceType True
     = Inr g_chunk_alloc_sequence_boot_non_class
   \<and> static_heap g_chunk_alloc_sequence_boot_non_class
     = Some \<lparr>entries = g_sequ_boot_non_class, num_entries = 2\<rparr>"
  by (simp add: static_heap_simps)

text \<open>
  C4. For a bootstrap primary (non-class) arena, the sequence's call index 0 returns the
  largest configured level (4M, the sequence's first entry), call index 1 returns the
  second entry (1M), and call index 2 returns that second entry again.
\<close>

theorem boot_non_class_levels:
  "next_level_by_space_type BootMetaspaceType False 0 = Inr CHUNK_LEVEL_4M
   \<and> next_level_by_space_type BootMetaspaceType False 0 = Inr (g_sequ_boot_non_class ! 0)
   \<and> next_level_by_space_type BootMetaspaceType False 1 = Inr CHUNK_LEVEL_1M
   \<and> next_level_by_space_type BootMetaspaceType False 1 = Inr (g_sequ_boot_non_class ! 1)
   \<and> next_level_by_space_type BootMetaspaceType False 2 = Inr CHUNK_LEVEL_1M
   \<and> next_level_by_space_type BootMetaspaceType False 2 = Inr (g_sequ_boot_non_class ! 1)"
  by (simp add: next_level_by_space_type_def get_next_chunk_level_def static_heap_simps
      array_read_def g_sequ_boot_non_class_def)

text \<open>
  C5. Calling the selector \<open>alloc_sequence_by_space_type\<close> with a space type outside the
  recognized closed set (Standard, Reflection, UnsafeAnonymous, Boot) is a fatal
  programming-contract violation (\<open>ShouldNotReachHere\<close>): the call never returns a
  sequence normally for such an input.
\<close>

theorem unrecognized_space_type_is_fatal:
  assumes "space_type \<notin> {StandardMetaspaceType, ReflectionMetaspaceType,
                         UnsafeAnonymousMetaspaceType, BootMetaspaceType}"
  shows "alloc_sequence_by_space_type space_type is_class = Inl ShouldNotReachHere
       \<and> alloc_sequence_by_space_type space_type is_class \<noteq> Inr p"
  using assms by (cases space_type) simp_all

theorem unrecognized_space_type_is_fatal_witness:
  "UnrecognizedMetaspaceType 4 \<notin> {StandardMetaspaceType, ReflectionMetaspaceType,
                         UnsafeAnonymousMetaspaceType, BootMetaspaceType}
   \<and> alloc_sequence_by_space_type (UnrecognizedMetaspaceType 4) True = Inl ShouldNotReachHere
   \<and> alloc_sequence_by_space_type (UnrecognizedMetaspaceType 4) False = Inl ShouldNotReachHere"
proof -
  have u: "UnrecognizedMetaspaceType 4 \<notin> {StandardMetaspaceType, ReflectionMetaspaceType,
                         UnsafeAnonymousMetaspaceType, BootMetaspaceType}" by simp
  from unrecognized_space_type_is_fatal [OF u, of True]
       unrecognized_space_type_is_fatal [OF u, of False] u
  show ?thesis by blast
qed

text \<open>
  C8. For the ephemeral/anonymous category, for both the primary and the secondary
  metadata kind, the selected sequence returns the smallest configured level (1K) for
  every non-negative call index (the sequence is constant).
\<close>

theorem anon_levels_constant:
  assumes "0 \<le> i"
  shows "next_level_by_space_type UnsafeAnonymousMetaspaceType is_class i = Inr CHUNK_LEVEL_1K"
proof (cases is_class)
  case True
  then show ?thesis using assms
    by (simp add: next_level_by_space_type_def get_next_chunk_level_def static_heap_simps
        array_read_def g_sequ_anon_class_def)
next
  case False
  then show ?thesis using assms
    by (simp add: next_level_by_space_type_def get_next_chunk_level_def static_heap_simps
        array_read_def g_sequ_anon_non_class_def)
qed

theorem anon_levels_constant_witness:
  "(0::int) \<le> 7
   \<and> next_level_by_space_type UnsafeAnonymousMetaspaceType True 7 = Inr CHUNK_LEVEL_1K
   \<and> next_level_by_space_type UnsafeAnonymousMetaspaceType False 7 = Inr CHUNK_LEVEL_1K"
proof -
  have i: "(0::int) \<le> 7" by simp
  from anon_levels_constant [OF i, of True] anon_levels_constant [OF i, of False] i
  show ?thesis by blast
qed

subsection \<open>Construction of a SpaceManager\<close>

text \<open>
  C9. Immediately after SpaceManager construction, \<open>first_chunk\<close> and \<open>current_chunk\<close>
  are null, the block free-list is empty (null), \<open>capacity_words\<close>, \<open>used_words\<close> and
  \<open>overhead_words\<close> are all zero, every per-level chunk count is zero, and no block has
  been requested from the Block Pool (allocation is lazy); the stored chunk-manager,
  alloc-sequence and lock references equal the constructor arguments.
\<close>

theorem SpaceManager_ctor_fresh:
  "first_chunk (fst (SpaceManager_ctor w cm sq lk)) = None
   \<and> current_chunk (fst (SpaceManager_ctor w cm sq lk)) = None
   \<and> block_freelist (fst (SpaceManager_ctor w cm sq lk)) = None
   \<and> capacity_words (fst (SpaceManager_ctor w cm sq lk)) = 0
   \<and> used_words (fst (SpaceManager_ctor w cm sq lk)) = 0
   \<and> overhead_words (fst (SpaceManager_ctor w cm sq lk)) = 0
   \<and> num_chunks_by_type (fst (SpaceManager_ctor w cm sq lk)) level = 0
   \<and> snd (SpaceManager_ctor w cm sq lk) = w
   \<and> chunk_manager (fst (SpaceManager_ctor w cm sq lk)) = cm
   \<and> chunk_alloc_sequence (fst (SpaceManager_ctor w cm sq lk)) = sq
   \<and> lock (fst (SpaceManager_ctor w cm sq lk)) = lk"
  by (simp add: SpaceManager_ctor_def)

subsection \<open>The counters of an arena\<close>

text \<open>
  C10. For every arena allocator, at every observable point in its lifetime (after
  construction and after each allocate or deallocate operation),
  \<open>used_words \<le> capacity_words\<close> holds. Here for every arena reached from the
  constructor by \<open>allocate\<close> and by \<open>deallocate\<close> of live allocations, with a positive
  allocation granularity.
\<close>

theorem used_le_capacity:
  assumes "0 < granule P" and "arena_reachable P (s, live)"
  shows "used_words s \<le> capacity_words s"
  using reachable_invariant [OF assms] by (simp add: accounted_def)

theorem used_le_capacity_witness:
  "0 < granule \<lparr>granule = 2, min_useful = 2, block_overhead = 8, bytes_per_word = 8\<rparr>
   \<and> arena_reachable \<lparr>granule = 2, min_useful = 2, block_overhead = 8, bytes_per_word = 8\<rparr>
       ((deallocate
     (snd (allocate \<lparr>granule = 2, min_useful = 2, block_overhead = 8, bytes_per_word = 8\<rparr> []
        (snd (allocate \<lparr>granule = 2, min_useful = 2, block_overhead = 8, bytes_per_word = 8\<rparr>
            [\<lambda>l. Some 4096] (fst (SpaceManager_ctor () (0::nat) g_chunk_alloc_sequence_anon_non_class (0::nat))) 10)) 6))
     4096 10), [(4106, 6)])
   \<and> used_words (deallocate
     (snd (allocate \<lparr>granule = 2, min_useful = 2, block_overhead = 8, bytes_per_word = 8\<rparr> []
        (snd (allocate \<lparr>granule = 2, min_useful = 2, block_overhead = 8, bytes_per_word = 8\<rparr>
            [\<lambda>l. Some 4096] (fst (SpaceManager_ctor () (0::nat) g_chunk_alloc_sequence_anon_non_class (0::nat))) 10)) 6))
     4096 10) = 6
   \<and> capacity_words (deallocate
     (snd (allocate \<lparr>granule = 2, min_useful = 2, block_overhead = 8, bytes_per_word = 8\<rparr> []
        (snd (allocate \<lparr>granule = 2, min_useful = 2, block_overhead = 8, bytes_per_word = 8\<rparr>
            [\<lambda>l. Some 4096] (fst (SpaceManager_ctor () (0::nat) g_chunk_alloc_sequence_anon_non_class (0::nat))) 10)) 6))
     4096 10) = 120"
proof -
  let ?P = "\<lparr>granule = 2, min_useful = 2, block_overhead = 8, bytes_per_word = 8\<rparr>"
  let ?s0 = "(fst (SpaceManager_ctor () (0::nat) g_chunk_alloc_sequence_anon_non_class (0::nat)))"
  let ?r1 = "allocate ?P [\<lambda>l. Some 4096] ?s0 10"
  let ?r2 = "allocate ?P [] (snd ?r1) 6"
  let ?s3 = "deallocate (snd ?r2) 4096 10"
  have g: "0 < granule ?P" by simp
  have "fst ?r1 = Inr 4096" by code_simp
  then have e1: "?r1 = (Inr 4096, snd ?r1)" by (simp add: prod_eq_iff)
  have "fst ?r2 = Inr 4106" by code_simp
  then have e2: "?r2 = (Inr 4106, snd ?r2)" by (simp add: prod_eq_iff)
  have r1: "arena_reachable ?P (snd ?r1, [(4096, 10)])"
    by (rule arena_reachable.allocated [OF arena_reachable.constructed e1])
  have r2: "arena_reachable ?P (snd ?r2, [(4106, 6), (4096, 10)])"
    by (rule arena_reachable.allocated [OF r1 e2])
  have "arena_reachable ?P (?s3, remove1 (4096, 10) [(4106, 6), (4096, 10)])"
    by (rule arena_reachable.deallocated [OF r2]) simp
  then have r3: "arena_reachable ?P (?s3, [(4106, 6)])" by simp
  have used: "used_words ?s3 = 6" by code_simp
  have cap: "capacity_words ?s3 = 120" by code_simp
  from used_le_capacity [OF g r3] g r3 used cap show ?thesis by simp
qed

end
